theory Spec2Isabelle
  imports Complex_Main
begin

section \<open>JavaScript values, exceptions and promises\<close>

text \<open>
  The tool handlers of the server inspect the values that the Figma client hands back
  (\<^verbatim>\<open>result && typeof result.id === "string"\<close>, \<^verbatim>\<open>Array.isArray(result.nodes)\<close>),
  so the values are modelled as the trees that arrive over the socket: the JSON values,
  and \<^verbatim>\<open>undefined\<close>. An object is the list of its own properties in insertion order.
  Numbers are rationals: the handlers only ever test a number for truthiness, and
  \<^verbatim>\<open>NaN\<close> does not occur in a parsed message.
\<close>

datatype jsval =
    JUndefined
  | JNull
  | JBool bool
  | JNum rat
  | JStr string
  | JArr "jsval list"
  | JObj "(string \<times> jsval) list"

text \<open>
  What a \<^verbatim>\<open>throw\<close> or a rejected promise carries: an instance of \<^verbatim>\<open>Error\<close> with its
  message, or any other value.
\<close>

datatype thrown =
    ErrorInstance string
  | ThrownValue jsval

text \<open>
  The state of a promise once the caller awaits it. \<open>Pending\<close> is the promise that never
  settles: an \<^verbatim>\<open>await\<close> on it never returns.
\<close>

datatype 'a settled =
    Resolved 'a
  | Rejected thrown
  | Pending

text \<open>Truthiness, as \<^verbatim>\<open>if (v)\<close> and \<^verbatim>\<open>v && ...\<close> test it.\<close>

fun truthy :: "jsval \<Rightarrow> bool" where
  "truthy JUndefined = False"
| "truthy JNull = False"
| "truthy (JBool b) = b"
| "truthy (JNum n) = (n \<noteq> 0)"
| "truthy (JStr s) = (s \<noteq> [])"
| "truthy (JArr vs) = True"
| "truthy (JObj ps) = True"

fun isArray :: "jsval \<Rightarrow> bool" where
  "isArray (JArr vs) = True"
| "isArray v = False"

text \<open>
  Reading the property \<^verbatim>\<open>v.id\<close> or \<^verbatim>\<open>v.nodes\<close>. On \<^verbatim>\<open>undefined\<close> and \<^verbatim>\<open>null\<close> the
  read throws a \<^verbatim>\<open>TypeError\<close>; an object yields the property when it has it; every other
  value (and an object without the property) yields \<^verbatim>\<open>undefined\<close>, since neither
  \<^verbatim>\<open>id\<close> nor \<^verbatim>\<open>nodes\<close> is a property of a boolean, a number, a string or an array.
\<close>

fun get_prop :: "jsval \<Rightarrow> string \<Rightarrow> thrown + jsval" where
  "get_prop JUndefined k = Inl (ErrorInstance ''Cannot read properties of undefined'')"
| "get_prop JNull k = Inl (ErrorInstance ''Cannot read properties of null'')"
| "get_prop (JObj ps) k = (case map_of ps k of None \<Rightarrow> Inr JUndefined | Some v \<Rightarrow> Inr v)"
| "get_prop v k = Inr JUndefined"

text \<open>
  \<^verbatim>\<open>err instanceof Error ? err.message : String(err)\<close>, the expression both handlers use in
  their \<^verbatim>\<open>catch\<close> block. The conversion \<^verbatim>\<open>String\<close> of the language is a parameter.
\<close>

fun error_text :: "(jsval \<Rightarrow> string) \<Rightarrow> thrown \<Rightarrow> string" where
  "error_text String (ErrorInstance message) = message"
| "error_text String (ThrownValue v) = String v"

section \<open>The text tool: \<^verbatim>\<open>SET_TEXT\<close>\<close>

text \<open>
  \<^verbatim>\<open>SingleTextSchema\<close> of \<^verbatim>\<open>text-schema.ts\<close>. The schema is a \<^verbatim>\<open>z.object\<close>, which drops
  every key it does not name, so a validated configuration has exactly these fields
  (the optional ones may be absent). The fields carry the prefix \<open>cfg_\<close>.
\<close>

record text_config =
  cfg_x :: rat
  cfg_y :: rat
  cfg_text :: string
  cfg_width :: "rat option"
  cfg_height :: "rat option"
  cfg_fontSize :: "rat option"
  cfg_fontWeight :: "rat option"
  cfg_fontColor :: "jsval option"
  cfg_name :: "string option"
  cfg_parentId :: "string option"

text \<open>
  The arguments of the tool: \<^verbatim>\<open>text: SingleTextSchema.optional()\<close> and
  \<^verbatim>\<open>texts: BatchTextsSchema.optional()\<close>; \<open>None\<close> is \<^verbatim>\<open>undefined\<close>.
\<close>

record set_text_args =
  arg_text :: "text_config option"
  arg_texts :: "text_config list option"

text \<open>\<^verbatim>\<open>{ commandId: uuidv4(), ...textConfig }\<close>: the parameters of one underlying command.\<close>

record create_text_params =
  commandId :: string
  config :: text_config

text \<open>
  The Figma client, of which the handlers use two asynchronous methods. Each takes the
  state of the world outside the handler (the socket, the plugin, the document) and
  returns how its promise settles, with the world after it.
\<close>

record 'w FigmaClient =
  createText :: "create_text_params \<Rightarrow> 'w \<Rightarrow> jsval settled \<times> 'w"
  executeCommand :: "string \<Rightarrow> jsval \<Rightarrow> 'w \<Rightarrow> jsval settled \<times> 'w"

record content_item =
  type :: string
  text_ :: string

text \<open>What a handler returns; \<open>isError = None\<close> is a result without the key.\<close>

record tool_result =
  content :: "content_item list"
  isError :: "bool option"

text \<open>
  \<^verbatim>\<open>node && typeof node.id === "string"\<close>, and the identifier that is then pushed:
  \<open>Some\<close> of the identifier when the test holds. The property is read only when the value
  is truthy, and \<^verbatim>\<open>typeof\<close> answers \<^verbatim>\<open>"string"\<close> for the strings \<open>JStr s\<close> alone.
\<close>

definition string_id :: "jsval \<Rightarrow> thrown + string option" where
  "string_id v =
     (if truthy v then
        (case get_prop v ''id'' of
           Inl e \<Rightarrow> Inl e
         | Inr i \<Rightarrow> (case i of JStr s \<Rightarrow> Inr (Some s) | _ \<Rightarrow> Inr None))
      else Inr None)"

text \<open>The inner loop \<^verbatim>\<open>for (const node of result.nodes)\<close>, pushing onto \<open>nodeIds\<close>.\<close>

fun push_node_ids :: "jsval list \<Rightarrow> string list \<Rightarrow> thrown + string list" where
  "push_node_ids [] nodeIds = Inr nodeIds"
| "push_node_ids (node # nodes) nodeIds =
     (case string_id node of
        Inl e \<Rightarrow> Inl e
      | Inr (Some i) \<Rightarrow> push_node_ids nodes (nodeIds @ [i])
      | Inr None \<Rightarrow> push_node_ids nodes nodeIds)"

text \<open>
  Lines 135 to 143: what one result adds to \<open>nodeIds\<close>. A result with a string \<^verbatim>\<open>id\<close>
  adds it; otherwise a truthy result whose \<^verbatim>\<open>nodes\<close> is an array adds the string
  identifiers of its truthy nodes; any other result adds nothing.
\<close>

definition collect_ids :: "jsval \<Rightarrow> string list \<Rightarrow> thrown + string list" where
  "collect_ids result nodeIds =
     (case string_id result of
        Inl e \<Rightarrow> Inl e
      | Inr (Some i) \<Rightarrow> Inr (nodeIds @ [i])
      | Inr None \<Rightarrow>
          (if truthy result then
             (case get_prop result ''nodes'' of
                Inl e \<Rightarrow> Inl e
              | Inr ns \<Rightarrow> (case ns of JArr nodes \<Rightarrow> push_node_ids nodes nodeIds | _ \<Rightarrow> Inr nodeIds))
           else Inr nodeIds))"

text \<open>
  The loop \<^verbatim>\<open>for (const textConfig of textsArr)\<close>: draw an identifier, dispatch the
  command, await it, collect its identifiers. A rejected command, like any throw, leaves
  the loop; a command that never settles keeps the handler waiting for ever.
\<close>

fun dispatch_loop ::
  "('w \<Rightarrow> string \<times> 'w) \<Rightarrow> 'w FigmaClient \<Rightarrow> text_config list \<Rightarrow> string list \<Rightarrow> 'w
     \<Rightarrow> string list settled \<times> 'w" where
  "dispatch_loop uuidv4 figmaClient [] nodeIds w = (Resolved nodeIds, w)"
| "dispatch_loop uuidv4 figmaClient (textConfig # rest) nodeIds w =
     (let (i, w1) = uuidv4 w;
          params = \<lparr>commandId = i, config = textConfig\<rparr>;
          (r, w2) = createText figmaClient params w1
      in case r of
           Rejected err \<Rightarrow> (Rejected err, w2)
         | Pending \<Rightarrow> (Pending, w2)
         | Resolved result \<Rightarrow>
             (case collect_ids result nodeIds of
                Inl err \<Rightarrow> (Rejected err, w2)
              | Inr nodeIds' \<Rightarrow> dispatch_loop uuidv4 figmaClient rest nodeIds' w2))"

text \<open>
  Lines 123 to 130: the array the loop runs over. An array, even the empty one, is truthy,
  so \<^verbatim>\<open>args.texts\<close> is taken whenever it is supplied; a validated \<^verbatim>\<open>args.text\<close> is an
  object and truthy as well.
\<close>

definition textsArr :: "set_text_args \<Rightarrow> thrown + text_config list" where
  "textsArr args =
     (case arg_texts args of
        Some texts \<Rightarrow> Inr texts
      | None \<Rightarrow>
          (case arg_text args of
             Some t \<Rightarrow> Inr [t]
           | None \<Rightarrow> Inl (ErrorInstance ''You must provide either 'text' or 'texts' as input.'')))"

text \<open>The body of the \<^verbatim>\<open>try\<close> block, up to the array \<open>nodeIds\<close>.\<close>

definition set_text_try ::
  "('w \<Rightarrow> string \<times> 'w) \<Rightarrow> 'w FigmaClient \<Rightarrow> set_text_args \<Rightarrow> 'w \<Rightarrow> string list settled \<times> 'w" where
  "set_text_try uuidv4 figmaClient args w =
     (case textsArr args of
        Inl err \<Rightarrow> (Rejected err, w)
      | Inr arr \<Rightarrow> dispatch_loop uuidv4 figmaClient arr [] w)"

text \<open>
  The handler registered for \<^verbatim>\<open>SET_TEXT\<close>: the \<^verbatim>\<open>try\<close> block with its \<^verbatim>\<open>return\<close>, and the
  \<^verbatim>\<open>catch\<close> block. The result is how the promise of the \<^verbatim>\<open>async\<close> handler settles.
\<close>

definition set_text_handler ::
  "(jsval \<Rightarrow> string) \<Rightarrow> ('w \<Rightarrow> string \<times> 'w) \<Rightarrow> 'w FigmaClient \<Rightarrow> set_text_args \<Rightarrow> 'w
     \<Rightarrow> tool_result settled \<times> 'w" where
  "set_text_handler String uuidv4 figmaClient args w =
     (case set_text_try uuidv4 figmaClient args w of
        (Resolved nodeIds, w') \<Rightarrow>
          (Resolved \<lparr>content = map (\<lambda>i. \<lparr>type = ''text'', text_ = i\<rparr>) nodeIds, isError = None\<rparr>, w')
      | (Rejected err, w') \<Rightarrow>
          (Resolved \<lparr>content = [\<lparr>type = ''text'', text_ = error_text String err\<rparr>],
                     isError = Some True\<rparr>, w')
      | (Pending, w') \<Rightarrow> (Pending, w'))"

section \<open>The CSS tool: \<^verbatim>\<open>GET_CSS_ASYNC\<close>\<close>

text \<open>
  The arguments as the handler destructures them, \<^verbatim>\<open>({ nodeId, format })\<close>; an absent
  one is \<open>JUndefined\<close>. Their schema, \<^verbatim>\<open>CssExportOptionsSchema\<close>, is declared outside these
  sources, so nothing is assumed of their shape.
\<close>

record css_args =
  nodeId :: jsval
  format :: jsval

text \<open>
  Lines 41 to 43, the object \<open>params\<close>. \<^verbatim>\<open>ensureNodeIdIsString\<close> comes from
  \<^verbatim>\<open>utils/node-utils.js\<close>, which is not among these sources, and is a parameter: it
  returns a value or throws.
\<close>

definition css_params :: "(jsval \<Rightarrow> thrown + jsval) \<Rightarrow> css_args \<Rightarrow> thrown + jsval" where
  "css_params ensureNodeIdIsString args =
     (case (if nodeId args \<noteq> JUndefined
            then (case ensureNodeIdIsString (nodeId args) of
                    Inl e \<Rightarrow> Inl e
                  | Inr i \<Rightarrow> Inr [(''nodeId'', i)])
            else Inr [])
      of Inl e \<Rightarrow> Inl e
       | Inr ps \<Rightarrow>
           Inr (JObj (ps @ (if format args \<noteq> JUndefined then [(''format'', format args)] else []))))"

text \<open>Lines 45 and 46: \<open>resultsArr\<close> and the \<open>response\<close> of the \<^verbatim>\<open>try\<close> block.\<close>

definition css_success_response :: "jsval \<Rightarrow> jsval" where
  "css_success_response result =
     (let resultsArr = (if isArray result then result else JArr [result])
      in JObj [(''success'', JBool True), (''results'', resultsArr)])"

text \<open>Lines 56 to 66: the \<open>response\<close> of the \<^verbatim>\<open>catch\<close> block.\<close>

definition css_failure_response :: "(jsval \<Rightarrow> string) \<Rightarrow> css_args \<Rightarrow> thrown \<Rightarrow> jsval" where
  "css_failure_response String args err =
     JObj [(''success'', JBool False),
           (''error'', JObj [(''message'', JStr (error_text String err)),
                            (''results'', JArr []),
                            (''meta'', JObj [(''operation'', JStr ''get_css_async''),
                                            (''params'', JObj [(''nodeId'', nodeId args),
                                                              (''format'', format args)])])])]"

text \<open>
  The \<^verbatim>\<open>try\<close> block. \<^verbatim>\<open>JSON.stringify\<close> is a parameter, the command name
  \<^verbatim>\<open>MCP_COMMANDS.GET_CSS_ASYNC\<close> (declared in \<^verbatim>\<open>types/commands.js\<close>) as well. On the trees
  of \<open>jsval\<close> \<^verbatim>\<open>JSON.stringify\<close> returns a string and does not throw.
\<close>

definition get_css_try ::
  "(jsval \<Rightarrow> string) \<Rightarrow> (jsval \<Rightarrow> thrown + jsval) \<Rightarrow> string \<Rightarrow> 'w FigmaClient \<Rightarrow> css_args \<Rightarrow> 'w
     \<Rightarrow> tool_result settled \<times> 'w" where
  "get_css_try JSON_stringify ensureNodeIdIsString GET_CSS_ASYNC figmaClient args w =
     (case css_params ensureNodeIdIsString args of
        Inl err \<Rightarrow> (Rejected err, w)
      | Inr params \<Rightarrow>
          (case executeCommand figmaClient GET_CSS_ASYNC params w of
             (Rejected err, w') \<Rightarrow> (Rejected err, w')
           | (Pending, w') \<Rightarrow> (Pending, w')
           | (Resolved result, w') \<Rightarrow>
               (Resolved \<lparr>content = [\<lparr>type = ''text'',
                                       text_ = JSON_stringify (css_success_response result)\<rparr>],
                          isError = None\<rparr>, w')))"

text \<open>The handler registered for \<^verbatim>\<open>GET_CSS_ASYNC\<close>: the \<^verbatim>\<open>try\<close> and the \<^verbatim>\<open>catch\<close> block.\<close>

definition get_css_async_handler ::
  "(jsval \<Rightarrow> string) \<Rightarrow> (jsval \<Rightarrow> string) \<Rightarrow> (jsval \<Rightarrow> thrown + jsval) \<Rightarrow> string
     \<Rightarrow> 'w FigmaClient \<Rightarrow> css_args \<Rightarrow> 'w \<Rightarrow> tool_result settled \<times> 'w" where
  "get_css_async_handler String JSON_stringify ensureNodeIdIsString GET_CSS_ASYNC figmaClient args w =
     (case get_css_try JSON_stringify ensureNodeIdIsString GET_CSS_ASYNC figmaClient args w of
        (Rejected err, w') \<Rightarrow>
          (Resolved \<lparr>content = [\<lparr>type = ''text'',
                                  text_ = JSON_stringify (css_failure_response String args err)\<rparr>],
                     isError = None\<rparr>, w')
      | (r, w') \<Rightarrow> (r, w'))"

section \<open>Observing the dispatches\<close>

text \<open>
  To speak of the commands a handler sends, a client is wrapped so that the world carries
  a log beside it. Every call of either method of the client, \<open>createText\<close> or
  \<open>executeCommand\<close>, appends what was sent, the way its promise settled and the world it
  left. The wrapped client behaves as the client does.
\<close>

datatype client_call =
    CreateText create_text_params
  | ExecuteCommand string jsval

record 'w dispatch =
  call :: client_call
  settlement :: "jsval settled"
  world_after :: 'w

type_synonym 'w dispatch_log = "'w dispatch list"

definition logged :: "'w FigmaClient \<Rightarrow> ('w dispatch_log \<times> 'w) FigmaClient" where
  "logged c =
     \<lparr>createText = (\<lambda>p (tr, w).
        let (r, w') = createText c p w
        in (r, (tr @ [\<lparr>call = CreateText p, settlement = r, world_after = w'\<rparr>], w'))),
      executeCommand = (\<lambda>n v (tr, w).
        let (r, w') = executeCommand c n v w
        in (r, (tr @ [\<lparr>call = ExecuteCommand n v, settlement = r, world_after = w'\<rparr>], w')))\<rparr>"

definition beside_log ::
  "('w \<Rightarrow> string \<times> 'w) \<Rightarrow> 'w dispatch_log \<times> 'w \<Rightarrow> string \<times> ('w dispatch_log \<times> 'w)" where
  "beside_log uuidv4 = (\<lambda>(tr, w). let (i, w') = uuidv4 w in (i, (tr, w')))"

text \<open>
  The text configuration a logged call created a text for: none for a command sent
  through \<open>executeCommand\<close>.
\<close>

fun text_created :: "client_call \<Rightarrow> text_config option" where
  "text_created (CreateText p) = Some (config p)"
| "text_created (ExecuteCommand n v) = None"

text \<open>The world that the last call of a log left; the given world when nothing was sent.\<close>

definition final_world :: "'w \<Rightarrow> 'w dispatch_log \<Rightarrow> 'w" where
  "final_world w tr = (if tr = [] then w else world_after (last tr))"

fun is_resolved :: "'a settled \<Rightarrow> bool" where
  "is_resolved (Resolved v) = True"
| "is_resolved r = False"

text \<open>
  The identifiers of a result, said directly: the string \<^verbatim>\<open>id\<close> of an object, and
  for an object without one the string \<^verbatim>\<open>id\<close>s of the objects in its array \<^verbatim>\<open>nodes\<close>.
  \<open>collect_ids\<close> is shown below to compute exactly this.
\<close>

definition node_id :: "jsval \<Rightarrow> string option" where
  "node_id v =
     (case v of
        JObj ps \<Rightarrow> (case map_of ps ''id'' of Some (JStr s) \<Rightarrow> Some s | _ \<Rightarrow> None)
      | _ \<Rightarrow> None)"

definition result_ids :: "jsval \<Rightarrow> string list" where
  "result_ids v =
     (case node_id v of
        Some i \<Rightarrow> [i]
      | None \<Rightarrow>
          (case v of
             JObj ps \<Rightarrow>
               (case map_of ps ''nodes'' of Some (JArr ns) \<Rightarrow> List.map_filter node_id ns | _ \<Rightarrow> [])
           | _ \<Rightarrow> []))"

fun settled_ids :: "jsval settled \<Rightarrow> string list" where
  "settled_ids (Resolved v) = result_ids v"
| "settled_ids r = []"

definition text_item :: "string \<Rightarrow> content_item" where
  "text_item s = \<lparr>type = ''text'', text_ = s\<rparr>"

definition error_result :: "string \<Rightarrow> tool_result" where
  "error_result message = \<lparr>content = [text_item message], isError = Some True\<rparr>"

section \<open>The Correlation Table\<close>

text \<open>
  Modelled from the spec: the error taxonomy of section 7. The sources hold the two tool
  handlers only; the bridge that correlates commands and progress events is not among
  them, so this section follows sections 3, 4.2 and 7 of the specification.
\<close>

datatype error_kind =
    NotConnected
  | EncodingError
  | TransportError
  | ConnectionClosed
  | Timeout
  | RemoteError "string option"

text \<open>Modelled from the spec: the status of a Progress Event (section 3).\<close>

datatype status = Started | InProgress | Completed | Error

text \<open>
  Modelled from the spec: the Progress Event (section 3), with the payload that a
  \<^verbatim>\<open>completed\<close> event carries (section 4.2).
\<close>

record progress_event =
  ev_commandId :: string
  ev_progress :: nat
  ev_status :: status
  ev_message :: "string option"
  ev_payload :: jsval

text \<open>
  Modelled from the spec: the Pending Invocation (section 3). Its pair of callbacks is
  not a field: calling one of them is the effect \<open>ToCaller\<close> below.
\<close>

record pending_invocation =
  created :: nat
  deadline :: "nat option"

text \<open>
  Modelled from the spec: the Correlation Table (section 2), from command identifiers to
  the invocations that await a result.
\<close>

type_synonym correlation_table = "string \<rightharpoonup> pending_invocation"

text \<open>Modelled from the spec: the terminal resolution of a call, success or failure.\<close>

datatype resolution = Success jsval | Failure error_kind

text \<open>
  Modelled from the spec: what processing one message does outside the table. It
  delivers a terminal resolution to the caller of a command, or forwards a progress event
  to the Progress Relay.
\<close>

datatype effect = ToCaller string resolution | ToRelay progress_event

text \<open>
  Modelled from the spec: what the message-processing path of a channel receives, a
  progress event from the socket or the expiry of the deadline of a call.
\<close>

datatype incoming = ProgressEvent progress_event | DeadlineExpired string

text \<open>
  Modelled from the spec: the Command Dispatcher registers a Pending Invocation under the
  fresh identifier of the command (section 4.1).
\<close>

definition register :: "string \<Rightarrow> pending_invocation \<Rightarrow> correlation_table \<Rightarrow> correlation_table" where
  "register cid p T = T(cid \<mapsto> p)"

text \<open>
  Modelled from the spec: section 4.2. An event for an identifier with no Pending
  Invocation is dropped silently. For a pending one, status \<^verbatim>\<open>completed\<close> resolves it
  with the payload and status \<^verbatim>\<open>error\<close> rejects it with the message, and the invocation is
  removed; any other status goes to the Progress Relay and leaves the table alone. The
  expiry of a deadline rejects the invocation with \<open>Timeout\<close> and removes it.
\<close>

fun on_incoming :: "incoming \<Rightarrow> correlation_table \<Rightarrow> effect list \<times> correlation_table" where
  "on_incoming (ProgressEvent ev) T =
     (case T (ev_commandId ev) of
        None \<Rightarrow> ([], T)
      | Some p \<Rightarrow>
          (case ev_status ev of
             Completed \<Rightarrow>
               ([ToCaller (ev_commandId ev) (Success (ev_payload ev))], T(ev_commandId ev := None))
           | Error \<Rightarrow>
               ([ToCaller (ev_commandId ev) (Failure (RemoteError (ev_message ev)))],
                T(ev_commandId ev := None))
           | _ \<Rightarrow> ([ToRelay ev], T)))"
| "on_incoming (DeadlineExpired cid) T =
     (case T cid of
        None \<Rightarrow> ([], T)
      | Some p \<Rightarrow>
          (case deadline p of
             None \<Rightarrow> ([], T)
           | Some d \<Rightarrow> ([ToCaller cid (Failure Timeout)], T(cid := None))))"

text \<open>
  Modelled from the spec: the messages of a channel are processed one at a time, in the
  order received (section 5).
\<close>

fun process :: "incoming list \<Rightarrow> correlation_table \<Rightarrow> effect list \<times> correlation_table" where
  "process [] T = ([], T)"
| "process (m # ms) T =
     (let (es, T1) = on_incoming m T; (es', T2) = process ms T1 in (es @ es', T2))"

text \<open>The terminal resolutions that a run delivers to the caller of one command.\<close>

fun delivered_to :: "string \<Rightarrow> effect list \<Rightarrow> resolution list" where
  "delivered_to cid [] = []"
| "delivered_to cid (ToCaller c r # es) = (if c = cid then r # delivered_to cid es else delivered_to cid es)"
| "delivered_to cid (ToRelay ev # es) = delivered_to cid es"

section \<open>Example inputs\<close>

text \<open>
  A text configuration with the given content and no optional field, a generator of
  identifiers that counts, a client whose answers depend on the content of the text, and a
  conversion to strings: the inputs of the example runs below.
\<close>

definition label :: "string \<Rightarrow> text_config" where
  "label s = \<lparr>cfg_x = 0, cfg_y = 0, cfg_text = s, cfg_width = None, cfg_height = None,
              cfg_fontSize = None, cfg_fontWeight = None, cfg_fontColor = None,
              cfg_name = None, cfg_parentId = None\<rparr>"

definition counting_uuid :: "nat \<Rightarrow> string \<times> nat" where
  "counting_uuid n = (replicate (Suc n) (CHR ''u''), Suc n)"

definition stub_client :: "nat FigmaClient" where
  "stub_client =
     \<lparr>createText = (\<lambda>p w.
        (if cfg_text (config p) = ''bad'' then Rejected (ErrorInstance ''font not loaded'')
         else if cfg_text (config p) = ''odd'' then Rejected (ThrownValue (JStr ''socket closed''))
         else if cfg_text (config p) = ''group''
           then Resolved (JObj [(''nodes'', JArr [JObj [(''id'', JStr ''7:1'')],
                                                  JObj [(''id'', JStr ''7:2'')]])])
         else Resolved (JObj [(''id'', JStr (cfg_text (config p)))]), w)),
      executeCommand = (\<lambda>n p w.
        (if n = ''get_css_async'' \<and> p = JObj [(''nodeId'', JStr ''1:2'')]
         then Resolved (JObj [(''color'', JStr ''red'')])
         else Rejected (ErrorInstance ''Node not found''), w))\<rparr>"

definition stub_String :: "jsval \<Rightarrow> string" where
  "stub_String v = (case v of JStr s \<Rightarrow> s | _ \<Rightarrow> ''[object Object]'')"

text \<open>A progress event with the given fields.\<close>

definition event :: "string \<Rightarrow> nat \<Rightarrow> status \<Rightarrow> string option \<Rightarrow> jsval \<Rightarrow> progress_event" where
  "event cid n st msg v =
     \<lparr>ev_commandId = cid, ev_progress = n, ev_status = st, ev_message = msg, ev_payload = v\<rparr>"

text \<open>
  A rendering that stands for \<^verbatim>\<open>JSON.stringify\<close> in the example runs. It writes objects,
  arrays, booleans, \<^verbatim>\<open>null\<close>, integers and strings as JSON does, leaves out the properties
  of an object that are \<^verbatim>\<open>undefined\<close>, and escapes nothing.
\<close>

fun show_nat :: "nat \<Rightarrow> string" where
  "show_nat n =
     (if n < 10 then [char_of (48 + n)] else show_nat (n div 10) @ [char_of (48 + n mod 10)])"

declare show_nat.simps [simp del]

definition show_rat :: "rat \<Rightarrow> string" where
  "show_rat r =
     (let (p, q) = quotient_of r;
          s = (if p < 0 then ''-'' else []) @ show_nat (nat \<bar>p\<bar>)
      in if q = 1 then s else s @ ''/'' @ show_nat (nat q))"

fun commas :: "string list \<Rightarrow> string" where
  "commas [] = []"
| "commas [s] = s"
| "commas (s # ss) = s @ '','' @ commas ss"

definition quoted :: "string \<Rightarrow> string" where
  "quoted s = [CHR 0x22] @ s @ [CHR 0x22]"

fun stub_stringify :: "jsval \<Rightarrow> string" where
  "stub_stringify JUndefined = ''null''"
| "stub_stringify JNull = ''null''"
| "stub_stringify (JBool b) = (if b then ''true'' else ''false'')"
| "stub_stringify (JNum n) = show_rat n"
| "stub_stringify (JStr s) = quoted s"
| "stub_stringify (JArr vs) = ''['' @ commas (map stub_stringify vs) @ '']''"
| "stub_stringify (JObj ps) =
     ''{'' @ commas (map (\<lambda>(k, v). quoted k @ '':'' @ stub_stringify v)
                         [(k, v) \<leftarrow> ps. v \<noteq> JUndefined]) @ ''}''"

text \<open>\<^verbatim>\<open>ensureNodeIdIsString\<close> in the example runs: strings pass, anything else throws.\<close>

definition stub_ensure :: "jsval \<Rightarrow> thrown + jsval" where
  "stub_ensure v =
     (case v of JStr s \<Rightarrow> Inr (JStr s) | _ \<Rightarrow> Inl (ErrorInstance ''nodeId must be a string''))"

text \<open>
  Names for the example runs: the arguments of a batch and of a single text, a run of the
  text handler on the observed stub client from an empty log, and the entries of a log.
\<close>

definition batch :: "string list \<Rightarrow> set_text_args" where
  "batch ss = \<lparr>arg_text = None, arg_texts = Some (map label ss)\<rparr>"

definition single :: "string \<Rightarrow> set_text_args" where
  "single s = \<lparr>arg_text = Some (label s), arg_texts = None\<rparr>"

definition run_stub :: "set_text_args \<Rightarrow> tool_result settled \<times> (nat dispatch_log \<times> nat)" where
  "run_stub args =
     set_text_handler stub_String (beside_log counting_uuid) (logged stub_client) args ([], 0)"

definition entry :: "string \<Rightarrow> string \<Rightarrow> jsval settled \<Rightarrow> nat \<Rightarrow> nat dispatch" where
  "entry i s r n =
     \<lparr>call = CreateText \<lparr>commandId = i, config = label s\<rparr>, settlement = r, world_after = n\<rparr>"

definition made :: "string \<Rightarrow> jsval settled" where
  "made s = Resolved (JObj [(''id'', JStr s)])"

definition group_made :: "jsval settled" where
  "group_made =
     Resolved (JObj [(''nodes'', JArr [JObj [(''id'', JStr ''7:1'')], JObj [(''id'', JStr ''7:2'')]])])"

definition font_error :: thrown where
  "font_error = ErrorInstance ''font not loaded''"

section \<open>The identifiers of a result\<close>

text \<open>
  The guards of the handler never read a property of \<^verbatim>\<open>undefined\<close> or \<^verbatim>\<open>null\<close>: collecting
  the identifiers of a result cannot throw, and it appends \<open>result_ids\<close>.
\<close>

lemma string_id_eq: "string_id v = Inr (node_id v)"
  by (cases v) (auto simp: string_id_def node_id_def split: option.splits jsval.splits)

lemma push_node_ids_eq: "push_node_ids ns acc = Inr (acc @ List.map_filter node_id ns)"
  by (induction ns arbitrary: acc) (auto simp: string_id_eq map_filter_simps split: option.splits)

lemma collect_ids_eq: "collect_ids v acc = Inr (acc @ result_ids v)"
  by (cases v)
     (auto simp: collect_ids_def result_ids_def string_id_eq push_node_ids_eq node_id_def
           split: option.splits jsval.splits)

section \<open>The dispatch loop and its log\<close>

lemma final_world_Cons:
  "final_world w (e # es) = final_world (world_after e) es"
  by (simp add: final_world_def)

text \<open>
  What a run of the loop adds to the log: one \<open>createText\<close> call for each element of a
  prefix of the configurations, in their order, and no other call; every entry but the
  last is a resolved command; the world returned is the one the last call left; the loop
  ends with a result exactly when every command resolved, and otherwise with the rejection
  (or the silence) of the last command it issued.
\<close>

lemma dispatch_loop_log:
  "dispatch_loop (beside_log u) (logged c) cfgs ids (tr, w) = (r, (tr', w')) \<Longrightarrow>
   \<exists>new. tr' = tr @ new
     \<and> map (\<lambda>e. text_created (call e)) new = map Some (take (length new) cfgs)
     \<and> (cfgs \<noteq> [] \<longrightarrow> new \<noteq> [])
     \<and> w' = final_world w new
     \<and> (\<forall>e \<in> set (butlast new). is_resolved (settlement e))
     \<and> (case r of
          Resolved ids' \<Rightarrow> length new = length cfgs \<and> (\<forall>e \<in> set new. is_resolved (settlement e)) \<and>
                           ids' = ids @ concat (map (\<lambda>e. settled_ids (settlement e)) new)
        | Rejected t \<Rightarrow> new \<noteq> [] \<and> settlement (last new) = Rejected t
        | Pending \<Rightarrow> new \<noteq> [] \<and> settlement (last new) = Pending)"
proof (induction cfgs arbitrary: ids tr w)
  case Nil
  then show ?case by (auto simp: final_world_def)
next
  case (Cons cfg rest)
  obtain i w1 where u: "u w = (i, w1)" by (cases "u w")
  let ?p = "\<lparr>commandId = i, config = cfg\<rparr>"
  obtain o1 w2 where c: "createText c ?p w1 = (o1, w2)" by (cases "createText c ?p w1")
  let ?e = "\<lparr>call = CreateText ?p, settlement = o1, world_after = w2\<rparr>"
  show ?case
  proof (cases o1)
    case (Resolved v)
    with Cons.prems u c
    have "dispatch_loop (beside_log u) (logged c) rest (ids @ result_ids v) (tr @ [?e], w2)
            = (r, (tr', w'))"
      by (simp add: beside_log_def logged_def collect_ids_eq)
    from Cons.IH[OF this] obtain new where
      n: "tr' = (tr @ [?e]) @ new"
         "map (\<lambda>e. text_created (call e)) new = map Some (take (length new) rest)"
         "w' = final_world w2 new"
         "\<forall>e \<in> set (butlast new). is_resolved (settlement e)"
         "(case r of
             Resolved ids' \<Rightarrow> length new = length rest
                 \<and> (\<forall>e \<in> set new. is_resolved (settlement e))
                 \<and> ids' = (ids @ result_ids v) @ concat (map (\<lambda>e. settled_ids (settlement e)) new)
           | Rejected t \<Rightarrow> new \<noteq> [] \<and> settlement (last new) = Rejected t
           | Pending \<Rightarrow> new \<noteq> [] \<and> settlement (last new) = Pending)"
      by blast
    show ?thesis
      apply (rule exI[of _ "?e # new"])
      using n Resolved
      by (auto simp: final_world_Cons split: settled.splits dest: in_set_butlastD)
  next
    case (Rejected t)
    with Cons.prems u c have "r = Rejected t" "tr' = tr @ [?e]" "w' = w2"
      by (auto simp: beside_log_def logged_def)
    with Rejected show ?thesis
      by (intro exI[of _ "[?e]"]) (simp add: final_world_def)
  next
    case Pending
    with Cons.prems u c have "r = Pending" "tr' = tr @ [?e]" "w' = w2"
      by (auto simp: beside_log_def logged_def)
    with Pending show ?thesis
      by (intro exI[of _ "[?e]"]) (simp add: final_world_def)
  qed
qed

text \<open>The handler in terms of the loop, once the array of configurations is known.\<close>

lemma set_text_handler_loop:
  assumes "textsArr args = Inr cfgs"
  shows "set_text_handler S u c args w =
     (case dispatch_loop u c cfgs [] w of
        (Resolved nodeIds, w') \<Rightarrow> (Resolved \<lparr>content = map text_item nodeIds, isError = None\<rparr>, w')
      | (Rejected err, w') \<Rightarrow> (Resolved (error_result (error_text S err)), w')
      | (Pending, w') \<Rightarrow> (Pending, w'))"
  using assms
  by (simp add: set_text_handler_def set_text_try_def text_item_def[abs_def] error_result_def
           split: prod.splits settled.splits)

lemma set_text_handler_throw:
  assumes "textsArr args = Inl err"
  shows "set_text_handler S u c args w = (Resolved (error_result (error_text S err)), w)"
  using assms
  by (simp add: set_text_handler_def set_text_try_def text_item_def error_result_def)

text \<open>The log of a whole run of the handler, the world and the value it returns.\<close>

lemma set_text_handler_log:
  assumes run: "set_text_handler S (beside_log u) (logged c) args ([], w) = (out, (tr, w'))"
    and arr: "textsArr args = Inr cfgs"
  shows "map (\<lambda>e. text_created (call e)) tr = map Some (take (length tr) cfgs)
     \<and> (cfgs \<noteq> [] \<longrightarrow> tr \<noteq> [])
     \<and> w' = final_world w tr
     \<and> (\<forall>e \<in> set (butlast tr). is_resolved (settlement e))
     \<and> (case out of
          Resolved res \<Rightarrow>
            (res = \<lparr>content = map text_item (concat (map (\<lambda>e. settled_ids (settlement e)) tr)),
                    isError = None\<rparr>
               \<and> length tr = length cfgs \<and> (\<forall>e \<in> set tr. is_resolved (settlement e)))
            \<or> (\<exists>t. res = error_result (error_text S t) \<and> tr \<noteq> [] \<and> settlement (last tr) = Rejected t)
        | Rejected t \<Rightarrow> False
        | Pending \<Rightarrow> tr \<noteq> [] \<and> settlement (last tr) = Pending)"
proof -
  obtain r where loop: "dispatch_loop (beside_log u) (logged c) cfgs [] ([], w) = (r, (tr, w'))"
    using run arr by (auto simp: set_text_handler_loop split: prod.splits settled.splits)
  have out: "out = (case r of
        Resolved nodeIds \<Rightarrow> Resolved \<lparr>content = map text_item nodeIds, isError = None\<rparr>
      | Rejected err \<Rightarrow> Resolved (error_result (error_text S err))
      | Pending \<Rightarrow> Pending)"
    using run arr loop by (auto simp: set_text_handler_loop split: settled.splits)
  from dispatch_loop_log[OF loop] out show ?thesis
    by (cases r) auto
qed

text \<open>A rejected command is the last one of the log, and its message is what is returned.\<close>

lemma rejected_is_last:
  assumes run: "set_text_handler S (beside_log u) (logged c) args ([], w) = (out, (tr, w'))"
    and k: "k < length tr" and rej: "settlement (tr ! k) = Rejected t"
  shows "length tr = Suc k \<and> out = Resolved (error_result (error_text S t))
       \<and> w' = world_after (tr ! k)"
proof (cases "textsArr args")
  case (Inl err)
  with run have "tr = []" by (simp add: set_text_handler_throw)
  with k show ?thesis by simp
next
  case (Inr cfgs)
  note lg = set_text_handler_log[OF run Inr]
  have last: "length tr = Suc k"
  proof (rule ccontr)
    assume "length tr \<noteq> Suc k"
    with k have "k < length (butlast tr)" by simp
    then have "tr ! k \<in> set (butlast tr)"
      by (metis nth_butlast nth_mem)
    with lg have "is_resolved (settlement (tr ! k))" by blast
    with rej show False by simp
  qed
  then have tk: "tr \<noteq> []" "last tr = tr ! k"
    by (cases tr rule: rev_cases; simp add: nth_append)+
  have "\<not> is_resolved (settlement (last tr))" using rej tk by simp
  then have nall: "\<not> (\<forall>e \<in> set tr. is_resolved (settlement e))"
    using tk(1) last_in_set by blast
  from lg nall rej tk have "out = Resolved (error_result (error_text S t))"
    by (cases out) auto
  moreover from lg tk have "w' = world_after (tr ! k)"
    by (simp add: final_world_def)
  ultimately show ?thesis using last by simp
qed

text \<open>The identifiers of a result, with every case written out.\<close>

lemma result_ids_cases:
  "result_ids v =
     (case v of
        JObj ps \<Rightarrow>
          (case map_of ps ''id'' of
             Some (JStr s) \<Rightarrow> [s]
           | _ \<Rightarrow>
               (case map_of ps ''nodes'' of
                  Some (JArr ns) \<Rightarrow>
                    concat (map (\<lambda>n. case n of
                                    JObj qs \<Rightarrow> (case map_of qs ''id'' of Some (JStr s) \<Rightarrow> [s] | _ \<Rightarrow> [])
                                  | _ \<Rightarrow> []) ns)
                | _ \<Rightarrow> []))
      | _ \<Rightarrow> [])"
proof -
  have mf: "List.map_filter node_id ns =
      concat (map (\<lambda>n. case n of
                      JObj qs \<Rightarrow> (case map_of qs ''id'' of Some (JStr s) \<Rightarrow> [s] | _ \<Rightarrow> [])
                    | _ \<Rightarrow> []) ns)" for ns
    by (induction ns)
       (auto simp: map_filter_simps node_id_def split: option.splits jsval.splits)
  show ?thesis
    by (simp add: result_ids_def node_id_def mf split: option.splits jsval.splits)
qed

section \<open>The claims on the text tool\<close>

lemmas stub_run_defs =
  run_stub_def batch_def single_def entry_def made_def group_made_def font_error_def
  set_text_handler_def set_text_try_def textsArr_def beside_log_def logged_def
  counting_uuid_def stub_client_def label_def collect_ids_def string_id_def

text \<open>
  C1, as the code has it. The log below records every command sent to the client,
  through \<open>createText\<close> and through \<open>executeCommand\<close> alike, with the world each left. In
  a batch, when the command of an element is rejected, the handler returns an error
  result whose only content item is the message of that failure (the message of an
  \<^verbatim>\<open>Error\<close>, the string conversion of any other value): the identifiers produced for the
  elements before it are not part of the returned value. The failing command is the last
  command of any kind that is sent, so no element after it is attempted and nothing
  undoes the earlier ones; the commands sent are the \<open>createText\<close> calls of the elements
  up to the failing one, every command before it had resolved, and the world returned is
  the one the failing command left.
\<close>

theorem set_text_failure_ends_batch:
  assumes run: "set_text_handler S (beside_log u) (logged c) args ([], w) = (out, (tr, w'))"
    and texts: "arg_texts args = Some cfgs"
    and k: "k < length tr"
    and rej: "settlement (tr ! k) = Rejected t"
  shows "out = Resolved \<lparr>content = [\<lparr>type = ''text'',
                                     text_ = (case t of ErrorInstance m \<Rightarrow> m | ThrownValue v \<Rightarrow> S v)\<rparr>],
                         isError = Some True\<rparr>
     \<and> length tr = Suc k
     \<and> map (\<lambda>e. text_created (call e)) tr = map Some (take (Suc k) cfgs)
     \<and> (\<forall>j<k. is_resolved (settlement (tr ! j)))
     \<and> w' = world_after (tr ! k)"
proof -
  from texts have arr: "textsArr args = Inr cfgs" by (simp add: textsArr_def)
  note lg = set_text_handler_log[OF run arr]
  from rejected_is_last[OF run k rej]
  have len: "length tr = Suc k" and out: "out = Resolved (error_result (error_text S t))"
    and wd: "w' = world_after (tr ! k)"
    by simp_all
  have "is_resolved (settlement (tr ! j))" if "j < k" for j
  proof -
    from that len have "j < length (butlast tr)" by simp
    then have "tr ! j \<in> set (butlast tr)" by (metis nth_butlast nth_mem)
    with lg show ?thesis by blast
  qed
  moreover have "error_text S t = (case t of ErrorInstance m \<Rightarrow> m | ThrownValue v \<Rightarrow> S v)"
    by (cases t) simp_all
  ultimately show ?thesis
    using lg len out wd by (simp add: error_result_def text_item_def)
qed

text \<open>
  The theorem at a batch of four whose third command is rejected: two commands resolve,
  the third fails, the fourth is never issued, and the message alone is returned.
\<close>

theorem set_text_failure_ends_batch_witness:
  "run_stub (batch [''A'', ''B'', ''bad'', ''D''])
     = (Resolved \<lparr>content = [\<lparr>type = ''text'', text_ = ''font not loaded''\<rparr>], isError = Some True\<rparr>,
        ([entry ''u'' ''A'' (made ''A'') 1, entry ''uu'' ''B'' (made ''B'') 2,
          entry ''uuu'' ''bad'' (Rejected font_error) 3], 3))
   \<and> arg_texts (batch [''A'', ''B'', ''bad'', ''D'']) = Some (map label [''A'', ''B'', ''bad'', ''D''])
   \<and> 2 < length [entry ''u'' ''A'' (made ''A'') 1, entry ''uu'' ''B'' (made ''B'') 2,
                  entry ''uuu'' ''bad'' (Rejected font_error) 3]
   \<and> settlement ([entry ''u'' ''A'' (made ''A'') 1, entry ''uu'' ''B'' (made ''B'') 2,
                   entry ''uuu'' ''bad'' (Rejected font_error) 3] ! 2) = Rejected font_error
   \<and> map (\<lambda>e. text_created (call e))
        [entry ''u'' ''A'' (made ''A'') 1, entry ''uu'' ''B'' (made ''B'') 2,
         entry ''uuu'' ''bad'' (Rejected font_error) 3]
       = map Some (take (Suc 2) (map label [''A'', ''B'', ''bad'', ''D'']))
   \<and> world_after ([entry ''u'' ''A'' (made ''A'') 1, entry ''uu'' ''B'' (made ''B'') 2,
                    entry ''uuu'' ''bad'' (Rejected font_error) 3] ! 2) = 3"
proof -
  let ?tr = "[entry ''u'' ''A'' (made ''A'') 1, entry ''uu'' ''B'' (made ''B'') 2,
              entry ''uuu'' ''bad'' (Rejected font_error) 3]"
  have run: "set_text_handler stub_String (beside_log counting_uuid) (logged stub_client)
       (batch [''A'', ''B'', ''bad'', ''D'']) ([], 0)
     = (Resolved \<lparr>content = [\<lparr>type = ''text'', text_ = ''font not loaded''\<rparr>], isError = Some True\<rparr>,
        (?tr, 3))"
    by (simp add: stub_run_defs)
  have texts: "arg_texts (batch [''A'', ''B'', ''bad'', ''D'']) = Some (map label [''A'', ''B'', ''bad'', ''D''])"
    by (simp add: batch_def)
  have k: "2 < length ?tr" by simp
  have rej: "settlement (?tr ! 2) = Rejected font_error" by (simp add: entry_def)
  from set_text_failure_ends_batch[OF run texts k rej] run texts k rej
  show ?thesis by (simp add: run_stub_def font_error_def)
qed

text \<open>
  C1 as the specification states it fails on Scenario D, a batch of three whose second
  command is rejected: the returned content holds the message of the failure and not the
  identifier \<open>A\<close> of the first text, and the log ends with the failed command, the third
  text never being dispatched.
\<close>

theorem set_text_failure_counterexample:
  "run_stub (batch [''A'', ''bad'', ''C''])
     = (Resolved \<lparr>content = [\<lparr>type = ''text'', text_ = ''font not loaded''\<rparr>], isError = Some True\<rparr>,
        ([entry ''u'' ''A'' (made ''A'') 1, entry ''uu'' ''bad'' (Rejected font_error) 2], 2))
   \<and> length (fst (snd (run_stub (batch [''A'', ''bad'', ''C'']))))
       < length (map label [''A'', ''bad'', ''C''])"
  by (simp add: stub_run_defs)

text \<open>
  C2, as the code has it. The log records every command sent to the client, through
  \<open>createText\<close> and through \<open>executeCommand\<close> alike. For a batch, the commands sent are
  exactly one \<open>createText\<close> for each element of a prefix of the configurations, in
  their order, and no other command; each is issued only after every command before it
  has resolved, and the world returned is the one the last command left. When every
  command sent resolves, exactly one command has been sent for each element, and the
  returned content is the concatenation, in the order of the configurations, of the
  identifiers of each result.
\<close>

theorem set_text_dispatch_order:
  assumes run: "set_text_handler S (beside_log u) (logged c) args ([], w) = (out, (tr, w'))"
    and texts: "arg_texts args = Some cfgs"
  shows "map (\<lambda>e. text_created (call e)) tr = map Some (take (length tr) cfgs)
     \<and> (\<forall>e \<in> set (butlast tr). is_resolved (settlement e))
     \<and> w' = (if tr = [] then w else world_after (last tr))
     \<and> (cfgs \<noteq> [] \<longrightarrow> tr \<noteq> [])
     \<and> ((\<forall>e \<in> set tr. is_resolved (settlement e)) \<longrightarrow>
          map (\<lambda>e. text_created (call e)) tr = map Some cfgs
        \<and> out = Resolved \<lparr>content = map (\<lambda>i. \<lparr>type = ''text'', text_ = i\<rparr>)
                                         (concat (map (\<lambda>e. settled_ids (settlement e)) tr)),
                           isError = None\<rparr>)
     \<and> settled_ids (Rejected t) = [] \<and> settled_ids Pending = []
     \<and> settled_ids (Resolved v) =
         (case v of
            JObj ps \<Rightarrow>
              (case map_of ps ''id'' of
                 Some (JStr s) \<Rightarrow> [s]
               | _ \<Rightarrow>
                   (case map_of ps ''nodes'' of
                      Some (JArr ns) \<Rightarrow>
                        concat (map (\<lambda>n. case n of
                                        JObj qs \<Rightarrow> (case map_of qs ''id'' of Some (JStr s) \<Rightarrow> [s] | _ \<Rightarrow> [])
                                      | _ \<Rightarrow> []) ns)
                    | _ \<Rightarrow> []))
          | _ \<Rightarrow> [])"
proof -
  from texts have arr: "textsArr args = Inr cfgs" by (simp add: textsArr_def)
  note lg = set_text_handler_log[OF run arr]
  have "map (\<lambda>e. text_created (call e)) tr = map Some cfgs
        \<and> out = Resolved \<lparr>content = map text_item (concat (map (\<lambda>e. settled_ids (settlement e)) tr)),
                           isError = None\<rparr>"
    if all: "\<forall>e \<in> set tr. is_resolved (settlement e)"
  proof (cases out)
    case (Resolved res)
    have "\<not> (\<exists>t. tr \<noteq> [] \<and> settlement (last tr) = Rejected t)"
      using all last_in_set by fastforce
    with lg Resolved show ?thesis by auto
  next
    case (Rejected t)
    with lg show ?thesis by simp
  next
    case Pending
    with lg have "tr \<noteq> []" "settlement (last tr) = Pending" by simp_all
    with all show ?thesis using last_in_set by fastforce
  qed
  moreover have "settled_ids (Resolved v) =
         (case v of
            JObj ps \<Rightarrow>
              (case map_of ps ''id'' of
                 Some (JStr s) \<Rightarrow> [s]
               | _ \<Rightarrow>
                   (case map_of ps ''nodes'' of
                      Some (JArr ns) \<Rightarrow>
                        concat (map (\<lambda>n. case n of
                                        JObj qs \<Rightarrow> (case map_of qs ''id'' of Some (JStr s) \<Rightarrow> [s] | _ \<Rightarrow> [])
                                      | _ \<Rightarrow> []) ns)
                    | _ \<Rightarrow> []))
          | _ \<Rightarrow> [])"
    using result_ids_cases[of v] by simp
  ultimately show ?thesis
    using lg by (simp add: text_item_def[abs_def] final_world_def)
qed

text \<open>
  The theorem at a batch of three whose commands all resolve, the second with two nodes:
  three dispatches in the order of the batch, four identifiers in that order.
\<close>

theorem set_text_dispatch_order_witness:
  "run_stub (batch [''A'', ''group'', ''C''])
     = (Resolved \<lparr>content = [\<lparr>type = ''text'', text_ = ''A''\<rparr>, \<lparr>type = ''text'', text_ = ''7:1''\<rparr>,
                              \<lparr>type = ''text'', text_ = ''7:2''\<rparr>, \<lparr>type = ''text'', text_ = ''C''\<rparr>],
                   isError = None\<rparr>,
        ([entry ''u'' ''A'' (made ''A'') 1, entry ''uu'' ''group'' group_made 2,
          entry ''uuu'' ''C'' (made ''C'') 3], 3))
   \<and> arg_texts (batch [''A'', ''group'', ''C'']) = Some (map label [''A'', ''group'', ''C''])
   \<and> list_all (\<lambda>e. is_resolved (settlement e))
        [entry ''u'' ''A'' (made ''A'') 1, entry ''uu'' ''group'' group_made 2,
         entry ''uuu'' ''C'' (made ''C'') 3]
   \<and> map (\<lambda>e. text_created (call e))
        [entry ''u'' ''A'' (made ''A'') 1, entry ''uu'' ''group'' group_made 2,
         entry ''uuu'' ''C'' (made ''C'') 3]
       = map Some (map label [''A'', ''group'', ''C''])
   \<and> concat (map (\<lambda>e. settled_ids (settlement e))
        [entry ''u'' ''A'' (made ''A'') 1, entry ''uu'' ''group'' group_made 2,
         entry ''uuu'' ''C'' (made ''C'') 3])
       = [''A'', ''7:1'', ''7:2'', ''C'']
   \<and> map label [''A'', ''group'', ''C''] \<noteq> []"
proof -
  let ?tr = "[entry ''u'' ''A'' (made ''A'') 1, entry ''uu'' ''group'' group_made 2,
              entry ''uuu'' ''C'' (made ''C'') 3]"
  have run: "set_text_handler stub_String (beside_log counting_uuid) (logged stub_client)
       (batch [''A'', ''group'', ''C'']) ([], 0)
     = (Resolved \<lparr>content = [\<lparr>type = ''text'', text_ = ''A''\<rparr>, \<lparr>type = ''text'', text_ = ''7:1''\<rparr>,
                              \<lparr>type = ''text'', text_ = ''7:2''\<rparr>, \<lparr>type = ''text'', text_ = ''C''\<rparr>],
                   isError = None\<rparr>, (?tr, 3))"
    by (simp add: stub_run_defs)
  have texts: "arg_texts (batch [''A'', ''group'', ''C'']) = Some (map label [''A'', ''group'', ''C''])"
    by (simp add: batch_def)
  have all: "\<forall>e \<in> set ?tr. is_resolved (settlement e)"
    by (simp add: entry_def made_def group_made_def)
  have all': "list_all (\<lambda>e. is_resolved (settlement e)) ?tr"
    using all by (simp only: list_all_iff)
  have ids: "concat (map (\<lambda>e. settled_ids (settlement e)) ?tr) = [''A'', ''7:1'', ''7:2'', ''C'']"
    by (simp add: entry_def made_def group_made_def result_ids_def node_id_def map_filter_simps)
  have ne: "map label [''A'', ''group'', ''C''] \<noteq> []" by simp
  have "map (\<lambda>e. text_created (call e)) ?tr = map Some (map label [''A'', ''group'', ''C''])"
    using set_text_dispatch_order[OF run texts] all by blast
  with run texts all' ids ne show ?thesis by (simp only: run_stub_def simp_thms)
qed

text \<open>
  C2 as the specification states it fails on a batch of two whose first command is
  rejected: one command is dispatched for two configurations, and no identifier is
  returned.
\<close>

theorem set_text_dispatch_counterexample:
  "run_stub (batch [''bad'', ''B''])
     = (Resolved \<lparr>content = [\<lparr>type = ''text'', text_ = ''font not loaded''\<rparr>], isError = Some True\<rparr>,
        ([entry ''u'' ''bad'' (Rejected font_error) 1], 1))
   \<and> length (fst (snd (run_stub (batch [''bad'', ''B''])))) \<noteq> length (map label [''bad'', ''B''])"
  by (simp add: stub_run_defs)

text \<open>
  C4. For a single configuration (\<open>text\<close> supplied, \<open>texts\<close> not) the handler draws one
  identifier and sends exactly one command, the \<open>createText\<close> of that configuration: the
  log, which records the calls of \<open>createText\<close> and of \<open>executeCommand\<close> alike, has this one
  entry, and the world returned is the one that command left. The result returned is
  that of this one element: its content lists the identifiers of the result of the one
  command (the string \<open>id\<close> of the result, or else the string \<open>id\<close>s of the objects in its
  array \<open>nodes\<close>), and when the command is rejected it is the error result with the
  message of the rejection.
\<close>

theorem set_text_single:
  "set_text_handler S (beside_log u) (logged c) \<lparr>arg_text = Some cfg, arg_texts = None\<rparr> ([], w) =
     (let (i, w1) = u w;
          (r, w2) = createText c \<lparr>commandId = i, config = cfg\<rparr> w1
      in (case r of
            Resolved v \<Rightarrow>
              Resolved \<lparr>content = map (\<lambda>i. \<lparr>type = ''text'', text_ = i\<rparr>) (result_ids v), isError = None\<rparr>
          | Rejected t \<Rightarrow>
              Resolved \<lparr>content = [\<lparr>type = ''text'',
                                     text_ = (case t of ErrorInstance m \<Rightarrow> m | ThrownValue v \<Rightarrow> S v)\<rparr>],
                        isError = Some True\<rparr>
          | Pending \<Rightarrow> Pending,
          ([\<lparr>call = CreateText \<lparr>commandId = i, config = cfg\<rparr>, settlement = r, world_after = w2\<rparr>], w2)))
   \<and> result_ids res =
       (case res of
          JObj ps \<Rightarrow>
            (case map_of ps ''id'' of
               Some (JStr s) \<Rightarrow> [s]
             | _ \<Rightarrow>
                 (case map_of ps ''nodes'' of
                    Some (JArr ns) \<Rightarrow>
                      concat (map (\<lambda>n. case n of
                                      JObj qs \<Rightarrow> (case map_of qs ''id'' of Some (JStr s) \<Rightarrow> [s] | _ \<Rightarrow> [])
                                    | _ \<Rightarrow> []) ns)
                  | _ \<Rightarrow> []))
        | _ \<Rightarrow> [])"
proof -
  have et: "error_text S t = (case t of ErrorInstance m \<Rightarrow> m | ThrownValue v \<Rightarrow> S v)" for t
    by (cases t) simp_all
  have "set_text_handler S (beside_log u) (logged c) \<lparr>arg_text = Some cfg, arg_texts = None\<rparr> ([], w) =
     (let (i, w1) = u w;
          (r, w2) = createText c \<lparr>commandId = i, config = cfg\<rparr> w1
      in (case r of
            Resolved v \<Rightarrow>
              Resolved \<lparr>content = map (\<lambda>i. \<lparr>type = ''text'', text_ = i\<rparr>) (result_ids v), isError = None\<rparr>
          | Rejected t \<Rightarrow>
              Resolved \<lparr>content = [\<lparr>type = ''text'',
                                     text_ = (case t of ErrorInstance m \<Rightarrow> m | ThrownValue v \<Rightarrow> S v)\<rparr>],
                        isError = Some True\<rparr>
          | Pending \<Rightarrow> Pending,
          ([\<lparr>call = CreateText \<lparr>commandId = i, config = cfg\<rparr>, settlement = r, world_after = w2\<rparr>], w2)))"
    by (simp add: set_text_handler_def set_text_try_def textsArr_def beside_log_def logged_def
          collect_ids_eq et
        split: prod.splits settled.splits)
  with result_ids_cases[of res] show ?thesis by simp
qed

text \<open>The theorem at a single text whose command answers with one identifier.\<close>

theorem set_text_single_witness:
  "run_stub (single ''A'')
     = (Resolved \<lparr>content = [\<lparr>type = ''text'', text_ = ''A''\<rparr>], isError = None\<rparr>,
        ([entry ''u'' ''A'' (made ''A'') 1], 1))
   \<and> result_ids (JObj [(''id'', JStr ''A'')]) = [''A'']"
  using set_text_single[of stub_String counting_uuid stub_client "label ''A''" 0
          "JObj [(''id'', JStr ''A'')]"]
  by (simp add: run_stub_def single_def entry_def made_def counting_uuid_def stub_client_def label_def)

text \<open>
  C8. When neither \<open>text\<close> nor \<open>texts\<close> is supplied, the handler dispatches no command: the
  world comes back as it was, and on an observed client the log stays empty. It returns a
  result with \<open>isError\<close> true whose single content item carries the message of the error
  it threw.
\<close>

theorem set_text_without_input:
  "set_text_handler S u c \<lparr>arg_text = None, arg_texts = None\<rparr> w
     = (Resolved \<lparr>content = [\<lparr>type = ''text'',
                              text_ = ''You must provide either 'text' or 'texts' as input.''\<rparr>],
                   isError = Some True\<rparr>, w)
   \<and> snd (set_text_handler S (beside_log u) (logged c) \<lparr>arg_text = None, arg_texts = None\<rparr> ([], w))
     = ([], w)"
  by (simp add: set_text_handler_def set_text_try_def textsArr_def)

theorem set_text_without_input_witness:
  "run_stub \<lparr>arg_text = None, arg_texts = None\<rparr>
     = (Resolved \<lparr>content = [\<lparr>type = ''text'',
                              text_ = ''You must provide either 'text' or 'texts' as input.''\<rparr>],
                   isError = Some True\<rparr>, ([], 0))"
  using set_text_without_input[of stub_String "beside_log counting_uuid" "logged stub_client" "([], 0)"]
  by (simp add: run_stub_def)

text \<open>
  C9. When \<open>texts\<close> is supplied, \<open>text\<close> is ignored: the handler does the same with and
  without it. For the empty array \<open>texts\<close> it returns a result without \<open>isError\<close> whose
  content is empty, and dispatches no command: the world comes back as it was, and on an
  observed client the log stays empty.
\<close>

theorem set_text_texts_first:
  "set_text_handler S u c \<lparr>arg_text = t, arg_texts = Some ts\<rparr> w
     = set_text_handler S u c \<lparr>arg_text = None, arg_texts = Some ts\<rparr> w
   \<and> set_text_handler S u c \<lparr>arg_text = t, arg_texts = Some []\<rparr> w
     = (Resolved \<lparr>content = [], isError = None\<rparr>, w)
   \<and> snd (set_text_handler S (beside_log u) (logged c) \<lparr>arg_text = t, arg_texts = Some []\<rparr> ([], w))
     = ([], w)"
  by (simp add: set_text_handler_def set_text_try_def textsArr_def)

theorem set_text_texts_first_witness:
  "run_stub \<lparr>arg_text = Some (label ''bad''), arg_texts = Some [label ''A'']\<rparr>
     = run_stub (batch [''A''])
   \<and> run_stub (batch [''A''])
     = (Resolved \<lparr>content = [\<lparr>type = ''text'', text_ = ''A''\<rparr>], isError = None\<rparr>,
        ([entry ''u'' ''A'' (made ''A'') 1], 1))
   \<and> run_stub \<lparr>arg_text = Some (label ''bad''), arg_texts = Some []\<rparr>
     = (Resolved \<lparr>content = [], isError = None\<rparr>, ([], 0))"
proof -
  have run: "run_stub (batch [''A''])
     = (Resolved \<lparr>content = [\<lparr>type = ''text'', text_ = ''A''\<rparr>], isError = None\<rparr>,
        ([entry ''u'' ''A'' (made ''A'') 1], 1))"
    by (simp add: stub_run_defs)
  from set_text_texts_first[of stub_String "beside_log counting_uuid" "logged stub_client"
        "Some (label ''bad'')" "[label ''A'']" "([], 0)"] run
  show ?thesis by (simp add: run_stub_def batch_def)
qed

section \<open>The claims on the CSS tool\<close>

lemma get_css_async_handler_eq:
  "get_css_async_handler S J E G c args w =
     (case css_params E args of
        Inl err \<Rightarrow>
          (Resolved \<lparr>content = [\<lparr>type = ''text'', text_ = J (css_failure_response S args err)\<rparr>],
                     isError = None\<rparr>, w)
      | Inr ps \<Rightarrow>
          (case executeCommand c G ps w of
             (Resolved result, w') \<Rightarrow>
               (Resolved \<lparr>content = [\<lparr>type = ''text'', text_ = J (css_success_response result)\<rparr>],
                          isError = None\<rparr>, w')
           | (Rejected err, w') \<Rightarrow>
               (Resolved \<lparr>content = [\<lparr>type = ''text'', text_ = J (css_failure_response S args err)\<rparr>],
                          isError = None\<rparr>, w')
           | (Pending, w') \<Rightarrow> (Pending, w')))"
  by (simp add: get_css_async_handler_def get_css_try_def split: sum.splits prod.splits settled.splits)



section \<open>Failures are returned, never thrown\<close>

lemma set_text_handler_not_rejected: "fst (set_text_handler S u c args w) \<noteq> Rejected t"
  by (simp add: set_text_handler_def split: prod.splits settled.splits)

lemma get_css_async_handler_not_rejected: "fst (get_css_async_handler S J E G c args w) \<noteq> Rejected t"
  by (simp add: get_css_async_handler_eq split: sum.splits prod.splits settled.splits)

lemma set_text_handler_returns:
  assumes run: "set_text_handler S (beside_log u) (logged c) args ([], w) = (out, (tr, w'))"
    and settle: "\<forall>e \<in> set tr. settlement e \<noteq> Pending"
  shows "\<exists>res. out = Resolved res"
proof (cases "textsArr args")
  case (Inl err)
  with run show ?thesis by (auto simp: set_text_handler_throw)
next
  case (Inr cfgs)
  note lg = set_text_handler_log[OF run Inr]
  show ?thesis
  proof (cases out)
    case (Resolved res)
    then show ?thesis by simp
  next
    case (Rejected t)
    with lg show ?thesis by simp
  next
    case Pending
    with lg have "tr \<noteq> []" "settlement (last tr) = Pending" by simp_all
    with settle show ?thesis using last_in_set by blast
  qed
qed

text \<open>
  The log of a run of the CSS handler: empty when building the parameters threw, and
  otherwise the one command it sent; the value returned follows the way that command
  settled.
\<close>

lemma get_css_async_handler_log:
  assumes run: "get_css_async_handler S J E G (logged c) cargs ([], w) = (out, (tr, w'))"
  shows "tr = [] \<and> (\<exists>res. out = Resolved res)
       \<or> (\<exists>ps r. tr = [\<lparr>call = ExecuteCommand G ps, settlement = r, world_after = w'\<rparr>]
            \<and> out = (case r of
                 Resolved v \<Rightarrow>
                   Resolved \<lparr>content = [\<lparr>type = ''text'', text_ = J (css_success_response v)\<rparr>],
                             isError = None\<rparr>
               | Rejected t \<Rightarrow>
                   Resolved \<lparr>content = [\<lparr>type = ''text'', text_ = J (css_failure_response S cargs t)\<rparr>],
                             isError = None\<rparr>
               | Pending \<Rightarrow> Pending))"
proof (cases "css_params E cargs")
  case (Inl t)
  with run show ?thesis by (auto simp: get_css_async_handler_eq)
next
  case (Inr ps)
  obtain r w2 where ex: "executeCommand c G ps w = (r, w2)" by (cases "executeCommand c G ps w")
  with run Inr show ?thesis
    by (cases r) (auto simp: get_css_async_handler_eq logged_def)
qed

text \<open>
  C5. The promise of either handler is never rejected. On a client whose every call is
  logged, the text handler returns a value whenever every command it sent settled, and
  so does the CSS handler. Every failure is in the returned value. A rejected command of
  the text handler gives the result with \<open>isError\<close> true whose one content item is the
  message of the rejection: the message of an \<^verbatim>\<open>Error\<close>, the string conversion of any
  other value. A rejected command of the CSS handler gives the one content item that is
  \<^verbatim>\<open>JSON.stringify\<close> of the object with \<open>success\<close> false, that message, the empty
  \<open>results\<close> and the operation with its arguments. The errors thrown inside the handlers
  (no input for the text tool, a node identifier refused for the CSS tool) are returned in
  the same two forms.
\<close>

theorem handlers_return_failures:
  "fst (set_text_handler S u c args w) \<noteq> Rejected t'
   \<and> fst (get_css_async_handler S J E G c cargs w) \<noteq> Rejected t'
   \<and> (set_text_handler S (beside_log u) (logged c) args ([], w) = (out, (tr, w')) \<longrightarrow>
        (e \<in> set tr \<longrightarrow> settlement e = Rejected t \<longrightarrow>
           out = Resolved \<lparr>content = [\<lparr>type = ''text'',
                                          text_ = (case t of ErrorInstance m \<Rightarrow> m | ThrownValue v \<Rightarrow> S v)\<rparr>],
                             isError = Some True\<rparr>)
      \<and> ((\<forall>e \<in> set tr. settlement e \<noteq> Pending) \<longrightarrow> (\<exists>res. out = Resolved res)))
   \<and> (arg_text args0 = None \<longrightarrow> arg_texts args0 = None \<longrightarrow>
        set_text_handler S u c args0 w
          = (Resolved \<lparr>content = [\<lparr>type = ''text'',
                                   text_ = ''You must provide either 'text' or 'texts' as input.''\<rparr>],
                        isError = Some True\<rparr>, w))
   \<and> (get_css_async_handler S J E G (logged c) cargs ([], w) = (out1, (tr1, w1)) \<longrightarrow>
        (e1 \<in> set tr1 \<longrightarrow> settlement e1 = Rejected t1 \<longrightarrow>
           out1 = Resolved
             \<lparr>content = [\<lparr>type = ''text'',
                text_ = J (JObj [(''success'', JBool False),
                  (''error'', JObj [(''message'', JStr (case t1 of ErrorInstance m \<Rightarrow> m | ThrownValue v \<Rightarrow> S v)),
                                   (''results'', JArr []),
                                   (''meta'', JObj [(''operation'', JStr ''get_css_async''),
                                                   (''params'', JObj [(''nodeId'', nodeId cargs),
                                                                     (''format'', format cargs)])])])])\<rparr>],
              isError = None\<rparr>)
      \<and> ((\<forall>e \<in> set tr1. settlement e \<noteq> Pending) \<longrightarrow> (\<exists>res. out1 = Resolved res)))
   \<and> (nodeId cargs0 \<noteq> JUndefined \<longrightarrow> E (nodeId cargs0) = Inl t2 \<longrightarrow>
        get_css_async_handler S J E G c cargs0 w
          = (Resolved
              \<lparr>content = [\<lparr>type = ''text'',
                 text_ = J (JObj [(''success'', JBool False),
                   (''error'', JObj [(''message'', JStr (case t2 of ErrorInstance m \<Rightarrow> m | ThrownValue v \<Rightarrow> S v)),
                                    (''results'', JArr []),
                                    (''meta'', JObj [(''operation'', JStr ''get_css_async''),
                                                    (''params'', JObj [(''nodeId'', nodeId cargs0),
                                                                      (''format'', format cargs0)])])])])\<rparr>],
               isError = None\<rparr>, w))"
proof -
  have et: "error_text S x = (case x of ErrorInstance m \<Rightarrow> m | ThrownValue v \<Rightarrow> S v)" for x
    by (cases x) simp_all
  have rej: "out = Resolved \<lparr>content = [\<lparr>type = ''text'',
                                          text_ = (case t of ErrorInstance m \<Rightarrow> m | ThrownValue v \<Rightarrow> S v)\<rparr>],
                             isError = Some True\<rparr>"
    if run: "set_text_handler S (beside_log u) (logged c) args ([], w) = (out, (tr, w'))"
      and mem: "e \<in> set tr" and st: "settlement e = Rejected t"
  proof -
    from mem obtain k where "k < length tr" "tr ! k = e"
      by (auto simp: in_set_conv_nth)
    with st have "k < length tr" "settlement (tr ! k) = Rejected t" by simp_all
    from rejected_is_last[OF run this] show ?thesis
      by (simp add: error_result_def text_item_def et)
  qed
  have throw0: "set_text_handler S u c args0 w
          = (Resolved \<lparr>content = [\<lparr>type = ''text'',
                                   text_ = ''You must provide either 'text' or 'texts' as input.''\<rparr>],
                        isError = Some True\<rparr>, w)"
    if "arg_text args0 = None" "arg_texts args0 = None"
    using that by (simp add: set_text_handler_def set_text_try_def textsArr_def)
  have css_rej: "out1 = Resolved
             \<lparr>content = [\<lparr>type = ''text'',
                text_ = J (JObj [(''success'', JBool False),
                  (''error'', JObj [(''message'', JStr (case t1 of ErrorInstance m \<Rightarrow> m | ThrownValue v \<Rightarrow> S v)),
                                   (''results'', JArr []),
                                   (''meta'', JObj [(''operation'', JStr ''get_css_async''),
                                                   (''params'', JObj [(''nodeId'', nodeId cargs),
                                                                     (''format'', format cargs)])])])])\<rparr>],
              isError = None\<rparr>"
    if run: "get_css_async_handler S J E G (logged c) cargs ([], w) = (out1, (tr1, w1))"
      and mem: "e1 \<in> set tr1" and st: "settlement e1 = Rejected t1"
    using get_css_async_handler_log[OF run] mem st
    by (auto simp: css_failure_response_def et)
  have css_ret: "\<exists>res. out1 = Resolved res"
    if run: "get_css_async_handler S J E G (logged c) cargs ([], w) = (out1, (tr1, w1))"
      and settle: "\<forall>e \<in> set tr1. settlement e \<noteq> Pending"
  proof -
    from get_css_async_handler_log[OF run]
    consider "\<exists>res. out1 = Resolved res"
      | ps r where "tr1 = [\<lparr>call = ExecuteCommand G ps, settlement = r, world_after = w1\<rparr>]"
          "out1 = (case r of
                 Resolved v \<Rightarrow>
                   Resolved \<lparr>content = [\<lparr>type = ''text'', text_ = J (css_success_response v)\<rparr>],
                             isError = None\<rparr>
               | Rejected t \<Rightarrow>
                   Resolved \<lparr>content = [\<lparr>type = ''text'', text_ = J (css_failure_response S cargs t)\<rparr>],
                             isError = None\<rparr>
               | Pending \<Rightarrow> Pending)"
      by blast
    then show ?thesis
    proof cases
      case 1
      then show ?thesis .
    next
      case 2
      with settle show ?thesis by (cases r) auto
    qed
  qed
  have css_throw: "get_css_async_handler S J E G c cargs0 w
          = (Resolved
              \<lparr>content = [\<lparr>type = ''text'',
                 text_ = J (JObj [(''success'', JBool False),
                   (''error'', JObj [(''message'', JStr (case t2 of ErrorInstance m \<Rightarrow> m | ThrownValue v \<Rightarrow> S v)),
                                    (''results'', JArr []),
                                    (''meta'', JObj [(''operation'', JStr ''get_css_async''),
                                                    (''params'', JObj [(''nodeId'', nodeId cargs0),
                                                                      (''format'', format cargs0)])])])])\<rparr>],
               isError = None\<rparr>, w)"
    if "nodeId cargs0 \<noteq> JUndefined" "E (nodeId cargs0) = Inl t2"
    using that by (simp add: get_css_async_handler_eq css_params_def css_failure_response_def et)
  note nr1 = set_text_handler_not_rejected[of S u c args w t']
  note nr2 = get_css_async_handler_not_rejected[of S J E G c cargs w t']
  note ret = set_text_handler_returns[of S u c args w out tr w']
  from nr1 nr2 rej ret throw0 css_rej css_ret css_throw show ?thesis
    by blast
qed

text \<open>
  The theorem at a batch whose second command is rejected with a value that is no
  \<^verbatim>\<open>Error\<close>, at a call of the text tool without input, at a CSS command the client
  rejects, and at a node identifier that is refused: each hypothesis holds there, and each
  failure is returned.
\<close>

theorem handlers_return_failures_witness:
  "run_stub (batch [''A'', ''odd''])
     = (Resolved \<lparr>content = [\<lparr>type = ''text'', text_ = ''socket closed''\<rparr>], isError = Some True\<rparr>,
        ([entry ''u'' ''A'' (made ''A'') 1,
          entry ''uu'' ''odd'' (Rejected (ThrownValue (JStr ''socket closed''))) 2], 2))
   \<and> entry ''uu'' ''odd'' (Rejected (ThrownValue (JStr ''socket closed''))) 2
       \<in> set [entry ''u'' ''A'' (made ''A'') 1,
               entry ''uu'' ''odd'' (Rejected (ThrownValue (JStr ''socket closed''))) 2]
   \<and> settlement (entry ''uu'' ''odd'' (Rejected (ThrownValue (JStr ''socket closed''))) 2)
       = Rejected (ThrownValue (JStr ''socket closed''))
   \<and> list_all (\<lambda>e. settlement e \<noteq> Pending)
        [entry ''u'' ''A'' (made ''A'') 1,
         entry ''uu'' ''odd'' (Rejected (ThrownValue (JStr ''socket closed''))) 2]
   \<and> set_text_handler stub_String counting_uuid stub_client \<lparr>arg_text = None, arg_texts = None\<rparr> 0
       = (Resolved \<lparr>content = [\<lparr>type = ''text'',
                                text_ = ''You must provide either 'text' or 'texts' as input.''\<rparr>],
                     isError = Some True\<rparr>, 0)
   \<and> get_css_async_handler stub_String stub_stringify stub_ensure ''get_css_async'' (logged stub_client)
         \<lparr>nodeId = JStr ''9:9'', format = JUndefined\<rparr> ([], 0)
       = (Resolved \<lparr>content = [\<lparr>type = ''text'',
            text_ = stub_stringify (JObj [(''success'', JBool False),
              (''error'', JObj [(''message'', JStr ''Node not found''),
                               (''results'', JArr []),
                               (''meta'', JObj [(''operation'', JStr ''get_css_async''),
                                               (''params'', JObj [(''nodeId'', JStr ''9:9''),
                                                                 (''format'', JUndefined)])])])])\<rparr>],
                     isError = None\<rparr>,
          ([\<lparr>call = ExecuteCommand ''get_css_async'' (JObj [(''nodeId'', JStr ''9:9'')]),
             settlement = Rejected (ErrorInstance ''Node not found''), world_after = 0\<rparr>], 0))
   \<and> stub_ensure (JNum 5) = Inl (ErrorInstance ''nodeId must be a string'')
   \<and> get_css_async_handler stub_String stub_stringify stub_ensure ''get_css_async'' stub_client
         \<lparr>nodeId = JNum 5, format = JUndefined\<rparr> 0
       = (Resolved \<lparr>content = [\<lparr>type = ''text'',
            text_ = stub_stringify (JObj [(''success'', JBool False),
              (''error'', JObj [(''message'', JStr ''nodeId must be a string''),
                               (''results'', JArr []),
                               (''meta'', JObj [(''operation'', JStr ''get_css_async''),
                                               (''params'', JObj [(''nodeId'', JNum 5),
                                                                 (''format'', JUndefined)])])])])\<rparr>],
                     isError = None\<rparr>, 0)"
proof -
  let ?odd = "ThrownValue (JStr ''socket closed'')"
  let ?e = "entry ''uu'' ''odd'' (Rejected ?odd) 2"
  let ?tr = "[entry ''u'' ''A'' (made ''A'') 1, ?e]"
  let ?out = "Resolved \<lparr>content = [\<lparr>type = ''text'', text_ = ''socket closed''\<rparr>], isError = Some True\<rparr>"
  let ?c1 = "\<lparr>nodeId = JStr ''9:9'', format = JUndefined\<rparr>"
  let ?c0 = "\<lparr>nodeId = JNum 5, format = JUndefined\<rparr>"
  let ?e1 = "\<lparr>call = ExecuteCommand ''get_css_async'' (JObj [(''nodeId'', JStr ''9:9'')]),
             settlement = Rejected (ErrorInstance ''Node not found''), world_after = 0::nat\<rparr>"
  let ?out1 = "Resolved \<lparr>content = [\<lparr>type = ''text'',
            text_ = stub_stringify (JObj [(''success'', JBool False),
              (''error'', JObj [(''message'', JStr ''Node not found''),
                               (''results'', JArr []),
                               (''meta'', JObj [(''operation'', JStr ''get_css_async''),
                                               (''params'', JObj [(''nodeId'', JStr ''9:9''),
                                                                 (''format'', JUndefined)])])])])\<rparr>],
                     isError = None\<rparr>"
  have run: "set_text_handler stub_String (beside_log counting_uuid) (logged stub_client)
       (batch [''A'', ''odd'']) ([], 0) = (?out, (?tr, 2))"
    by (simp add: stub_run_defs stub_String_def)
  have mem: "?e \<in> set ?tr" by simp
  have st: "settlement ?e = Rejected ?odd" by (simp add: entry_def)
  have settle: "\<forall>e \<in> set ?tr. settlement e \<noteq> Pending"
    by (simp add: entry_def made_def)
  have settle': "list_all (\<lambda>e. settlement e \<noteq> Pending) ?tr"
    using settle by (simp only: list_all_iff)
  have none: "arg_text \<lparr>arg_text = None, arg_texts = None\<rparr> = None"
    "arg_texts \<lparr>arg_text = None, arg_texts = None\<rparr> = None" by simp_all
  have css_run: "get_css_async_handler stub_String stub_stringify stub_ensure ''get_css_async''
         (logged stub_client) ?c1 ([], 0) = (?out1, ([?e1], 0))"
    by (simp add: get_css_async_handler_def get_css_try_def css_params_def stub_ensure_def
          logged_def stub_client_def css_failure_response_def)
  have mem1: "?e1 \<in> set [?e1]" by simp
  have st1: "settlement ?e1 = Rejected (ErrorInstance ''Node not found'')" by simp
  have nid: "nodeId ?c0 \<noteq> JUndefined" by simp
  have ens: "stub_ensure (nodeId ?c0) = Inl (ErrorInstance ''nodeId must be a string'')"
    by (simp add: stub_ensure_def)
  note th = handlers_return_failures[where S = stub_String and u = counting_uuid and c = stub_client
      and args = "batch [''A'', ''odd'']" and w = 0 and t' = font_error
      and J = stub_stringify and E = stub_ensure and G = "''get_css_async''" and cargs = ?c1
      and out = ?out and tr = ?tr and w' = 2 and e = ?e and t = ?odd
      and ?args0.0 = "\<lparr>arg_text = None, arg_texts = None\<rparr>"
      and ?out1.0 = ?out1 and ?tr1.0 = "[?e1]" and ?w1.0 = 0 and ?e1.0 = ?e1
      and ?t1.0 = "ErrorInstance ''Node not found''"
      and ?cargs0.0 = ?c0 and ?t2.0 = "ErrorInstance ''nodeId must be a string''"]
  from th none have a: "set_text_handler stub_String counting_uuid stub_client
        \<lparr>arg_text = None, arg_texts = None\<rparr> 0
       = (Resolved \<lparr>content = [\<lparr>type = ''text'',
                                text_ = ''You must provide either 'text' or 'texts' as input.''\<rparr>],
                     isError = Some True\<rparr>, 0)"
    by blast
  from th nid ens have c: "get_css_async_handler stub_String stub_stringify stub_ensure ''get_css_async''
         stub_client ?c0 0
       = (Resolved \<lparr>content = [\<lparr>type = ''text'',
            text_ = stub_stringify (JObj [(''success'', JBool False),
              (''error'', JObj [(''message'', JStr ''nodeId must be a string''),
                               (''results'', JArr []),
                               (''meta'', JObj [(''operation'', JStr ''get_css_async''),
                                               (''params'', JObj [(''nodeId'', JNum 5),
                                                                 (''format'', JUndefined)])])])])\<rparr>],
                     isError = None\<rparr>, 0)"
    by simp
  have ens': "stub_ensure (JNum 5) = Inl (ErrorInstance ''nodeId must be a string'')"
    using ens by simp
  from run mem st settle' a css_run ens' c show ?thesis
    unfolding run_stub_def by blast
qed

section \<open>The claim on the Correlation Table\<close>

lemma delivered_to_append:
  "delivered_to cid (es @ es') = delivered_to cid es @ delivered_to cid es'"
  by (induction cid es rule: delivered_to.induct) simp_all

text \<open>
  One message delivers at most one resolution to a caller, only for a pending
  invocation, which it removes; and it never makes an invocation pending.
\<close>

lemma on_incoming_step:
  assumes "on_incoming m T = (es, T1)"
  shows "(delivered_to cid es = [] \<or> (\<exists>r. delivered_to cid es = [r] \<and> T1 cid = None))
       \<and> (T cid = None \<longrightarrow> delivered_to cid es = [] \<and> T1 cid = None)"
proof (cases m)
  case (ProgressEvent ev)
  with assms show ?thesis
    by (cases "ev_status ev") (auto split: option.splits if_splits)
next
  case (DeadlineExpired c)
  with assms show ?thesis
    by (auto split: option.splits if_splits)
qed

lemma process_not_pending:
  "T cid = None \<Longrightarrow> delivered_to cid (fst (process ms T)) = [] \<and> snd (process ms T) cid = None"
proof (induction ms arbitrary: T)
  case Nil
  then show ?case by simp
next
  case (Cons m ms)
  obtain es T1 where st: "on_incoming m T = (es, T1)" by (cases "on_incoming m T")
  from on_incoming_step[OF st, of cid] Cons.prems
  have "delivered_to cid es = []" "T1 cid = None" by simp_all
  with Cons.IH[of T1] st show ?case
    by (simp add: delivered_to_append case_prod_beta)
qed

lemma process_at_most_one: "length (delivered_to cid (fst (process ms T))) \<le> 1"
proof (induction ms arbitrary: T)
  case Nil
  then show ?case by simp
next
  case (Cons m ms)
  obtain es T1 where st: "on_incoming m T = (es, T1)" by (cases "on_incoming m T")
  from on_incoming_step[OF st, of cid]
  consider "delivered_to cid es = []" | r where "delivered_to cid es = [r]" "T1 cid = None"
    by blast
  then show ?case
  proof cases
    case 1
    with Cons.IH[of T1] st show ?thesis
      by (simp add: delivered_to_append case_prod_beta)
  next
    case 2
    with process_not_pending[of T1 cid ms] st show ?thesis
      by (simp add: delivered_to_append case_prod_beta)
  qed
qed

text \<open>
  C3, on the Correlation Table as the specification describes it. Whatever progress
  events and deadline expiries a channel processes, the caller of a command identifier
  receives at most one terminal resolution. For a pending invocation, the first event with
  status \<^verbatim>\<open>completed\<close> or \<^verbatim>\<open>error\<close> delivers that resolution and removes the invocation; from
  then on nothing more is delivered for the identifier, and every later event for it is
  dropped with the table unchanged.
\<close>

theorem one_terminal_resolution:
  "length (delivered_to cid (fst (process ms T))) \<le> 1
   \<and> (T cid = Some p \<longrightarrow> ev_commandId ev = cid \<longrightarrow> ev_status ev = Completed \<or> ev_status ev = Error \<longrightarrow>
        on_incoming (ProgressEvent ev) T
          = ([ToCaller cid (if ev_status ev = Completed then Success (ev_payload ev)
                            else Failure (RemoteError (ev_message ev)))], T(cid := None))
      \<and> delivered_to cid (fst (process ms (T(cid := None)))) = []
      \<and> (ev_commandId ev' = cid \<longrightarrow>
            on_incoming (ProgressEvent ev') (snd (process ms (T(cid := None))))
              = ([], snd (process ms (T(cid := None))))))"
proof -
  have gone: "delivered_to cid (fst (process ms (T(cid := None)))) = []"
    and still: "snd (process ms (T(cid := None))) cid = None"
    using process_not_pending[of "T(cid := None)" cid ms] by simp_all
  have first: "on_incoming (ProgressEvent ev) T
          = ([ToCaller cid (if ev_status ev = Completed then Success (ev_payload ev)
                            else Failure (RemoteError (ev_message ev)))], T(cid := None))"
    if "T cid = Some p" "ev_commandId ev = cid" "ev_status ev = Completed \<or> ev_status ev = Error"
    using that by auto
  have later: "on_incoming (ProgressEvent ev') (snd (process ms (T(cid := None))))
              = ([], snd (process ms (T(cid := None))))"
    if "ev_commandId ev' = cid"
    using that still by simp
  from process_at_most_one[of cid ms T] gone first later show ?thesis by blast
qed

text \<open>
  The theorem at an invocation registered under \<open>c1\<close>, on a channel that receives a progress
  event, two \<^verbatim>\<open>completed\<close> events, an \<^verbatim>\<open>error\<close> event and the expiry of the deadline:
  the caller is resolved once, with the payload of the first \<^verbatim>\<open>completed\<close> event.
\<close>

theorem one_terminal_resolution_witness:
  "register ''c1'' \<lparr>created = 0, deadline = Some 30\<rparr> Map.empty ''c1'' = Some \<lparr>created = 0, deadline = Some 30\<rparr>
   \<and> delivered_to ''c1'' (fst (process
         [ProgressEvent (event ''c1'' 40 InProgress None JNull),
          ProgressEvent (event ''c1'' 100 Completed None (JStr ''first'')),
          ProgressEvent (event ''c1'' 100 Completed None (JStr ''second'')),
          ProgressEvent (event ''c1'' 100 Error (Some ''late'') JNull),
          DeadlineExpired ''c1'']
         (register ''c1'' \<lparr>created = 0, deadline = Some 30\<rparr> Map.empty)))
       = [Success (JStr ''first'')]
   \<and> on_incoming (ProgressEvent (event ''c1'' 100 Completed None (JStr ''first'')))
         (register ''c1'' \<lparr>created = 0, deadline = Some 30\<rparr> Map.empty)
       = ([ToCaller ''c1'' (Success (JStr ''first''))],
          (register ''c1'' \<lparr>created = 0, deadline = Some 30\<rparr> Map.empty)(''c1'' := None))
   \<and> delivered_to ''c1'' (fst (process
         [ProgressEvent (event ''c1'' 100 Completed None (JStr ''second''))]
         ((register ''c1'' \<lparr>created = 0, deadline = Some 30\<rparr> Map.empty)(''c1'' := None)))) = []"
proof -
  let ?p = "\<lparr>created = 0, deadline = Some 30\<rparr>"
  let ?T = "register ''c1'' ?p Map.empty"
  let ?ev = "event ''c1'' 100 Completed None (JStr ''first'')"
  have pend: "?T ''c1'' = Some ?p" by (simp add: register_def)
  have cid: "ev_commandId ?ev = ''c1''" by (simp add: event_def)
  have st: "ev_status ?ev = Completed \<or> ev_status ?ev = Error" by (simp add: event_def)
  have all: "delivered_to ''c1'' (fst (process
         [ProgressEvent (event ''c1'' 40 InProgress None JNull),
          ProgressEvent ?ev,
          ProgressEvent (event ''c1'' 100 Completed None (JStr ''second'')),
          ProgressEvent (event ''c1'' 100 Error (Some ''late'') JNull),
          DeadlineExpired ''c1''] ?T)) = [Success (JStr ''first'')]"
    by (simp add: register_def event_def)
  note th = one_terminal_resolution[where cid = "''c1''" and T = ?T and p = ?p and ev = ?ev
      and ms = "[ProgressEvent (event ''c1'' 100 Completed None (JStr ''second''))]"
      and ev' = "event ''c1'' 100 Error (Some ''late'') JNull"]
  from th pend cid st
  have "on_incoming (ProgressEvent ?ev) ?T = ([ToCaller ''c1'' (Success (JStr ''first''))], ?T(''c1'' := None))"
    and "delivered_to ''c1'' (fst (process
         [ProgressEvent (event ''c1'' 100 Completed None (JStr ''second''))] (?T(''c1'' := None)))) = []"
    by (simp_all add: event_def)
  with pend all show ?thesis by blast
qed

end
